theory Spec2Isabelle
  imports Complex_Main "HOL-Library.AList"
begin

section \<open>Shared data of the request pipeline\<close>

text \<open>
  The exceptions of the framework carry an object literal as payload. The literal is kept
  as it is written in the source: an ordered list of keys, each holding a string or a
  list of strings.
\<close>

datatype pval = PStr string | PList "string list"

type_synonym payload = "(string \<times> pval) list"

datatype http_exception =
    UnauthorizedException payload
  | ForbiddenException payload
  | BadRequestException payload

text \<open>
  \<^verbatim>\<open>interface AuthenticatedUser\<close>. The field \<open>roles\<close> is optional at run time
  (\<^verbatim>\<open>user.roles || []\<close>), so it is an option here.
\<close>

record authenticated_user =
  userId :: string
  email :: string
  userTenantId :: "string option"
  roles :: "string list option"

text \<open>
  \<^verbatim>\<open>interface TenantContext\<close>. At run time \<open>tenantId\<close> is \<^verbatim>\<open>undefined\<close> when it was read
  from the first index of an empty array, so it is an option.
\<close>

datatype tenant_source = subdomain_source | header_source | default_source

record tenant_context =
  tenantId :: "string option"
  subdomain :: "string option"
  source :: tenant_source

text \<open>
  The value of one request header: absent, one string, or an array of strings
  (\<^verbatim>\<open>string | string[] | undefined\<close>).
\<close>

datatype header_value = Absent | Single string | Multi "string list"

text \<open>The fields of the request that the guards and the tenant middleware read and write.\<close>

record request =
  requestId :: "string option"
  user :: "authenticated_user option"
  tenantContext :: "tenant_context option"
  x_tenant_id :: header_value
  hostname :: string
  originalUrl :: string

text \<open>
  Truthiness of an optional string: \<^verbatim>\<open>undefined\<close>, \<^verbatim>\<open>null\<close> and the empty string are
  falsy.
\<close>

fun truthy_str :: "string option \<Rightarrow> bool" where
  "truthy_str None = False"
| "truthy_str (Some s) = (s \<noteq> [])"

text \<open>\<^verbatim>\<open>request.requestId || 'no-request-id'\<close>\<close>

definition requestId_or_default :: "'a request_scheme \<Rightarrow> string" where
  "requestId_or_default req =
     (case requestId req of
        None \<Rightarrow> ''no-request-id''
      | Some s \<Rightarrow> if s = [] then ''no-request-id'' else s)"

section \<open>RolesGuard\<close>

text \<open>
  \<^verbatim>\<open>RolesGuard.canActivate\<close>. The first argument is what the reflector returns for
  \<^verbatim>\<open>ROLES_KEY\<close>: \<open>None\<close> when the endpoint carries no metadata.
\<close>

definition RolesGuard_canActivate :: "string list option \<Rightarrow> request \<Rightarrow> http_exception + bool" where
  "RolesGuard_canActivate requiredRoles req =
     (case requiredRoles of
        None \<Rightarrow> Inr True
      | Some rr \<Rightarrow>
          if length rr = 0 then Inr True
          else
            (case user req of
               None \<Rightarrow>
                 Inl (ForbiddenException
                   [(''message'', PStr ''User not Authenticated''),
                    (''code'', PStr ''USER_NOT_FOUND''),
                    (''requestId'', PStr (requestId_or_default req))])
             | Some u \<Rightarrow>
                 (let userRoles = (case roles u of None \<Rightarrow> [] | Some rs \<Rightarrow> rs);
                      hasRole = list_ex (\<lambda>r. List.member userRoles r) rr
                  in if \<not> hasRole then
                       Inl (ForbiddenException
                         [(''message'', PStr ''Insufficient permissions''),
                          (''code'', PStr ''INSUFFICIENT_ROLES''),
                          (''requiredRoles'', PList rr),
                          (''userRoles'', PList userRoles),
                          (''requestId'', PStr (requestId_or_default req))])
                     else Inr True)))"

section \<open>FeatureFlagGuard\<close>

definition enabledFeatures :: "string list" where
  "enabledFeatures = [''new-dashboard'', ''beta-reports'']"

definition disabledForTenants :: "(string \<times> string list) list" where
  "disabledForTenants = [(''beta-reports'', [''tenant-123''])]"

text \<open>\<^verbatim>\<open>FeatureFlagGuard.isFeatureEnabled(flag, tenantId?)\<close>\<close>

definition isFeatureEnabled :: "string \<Rightarrow> string option \<Rightarrow> bool" where
  "isFeatureEnabled flag tid =
     (if \<not> List.member enabledFeatures flag then False
      else if truthy_str tid \<and>
              (case map_of disabledForTenants flag of
                 None \<Rightarrow> False
               | Some ts \<Rightarrow> (case tid of None \<Rightarrow> False | Some t \<Rightarrow> List.member ts t))
           then False
      else True)"

text \<open>
  \<^verbatim>\<open>FeatureFlagGuard.canActivate\<close>. The first argument is what the reflector returns for
  \<^verbatim>\<open>FEATURE_FLAG_KEY\<close>; \<^verbatim>\<open>request.tenantContext?.tenantId\<close> is \<^verbatim>\<open>undefined\<close> when there
  is no tenant context.
\<close>

definition FeatureFlagGuard_canActivate :: "string option \<Rightarrow> request \<Rightarrow> http_exception + bool" where
  "FeatureFlagGuard_canActivate requiredFlag req =
     (if \<not> truthy_str requiredFlag then Inr True
      else
        (let flag = the requiredFlag;
             tid = (case tenantContext req of None \<Rightarrow> None | Some tc \<Rightarrow> tenantId tc);
             isEnabled = isFeatureEnabled flag tid
         in if \<not> isEnabled then
              Inl (ForbiddenException
                [(''message'', PStr ''Feature not available''),
                 (''code'', PStr ''FEATURE_DISABLED''),
                 (''feature'', PStr flag),
                 (''requestId'', PStr (requestId_or_default req))])
            else Inr True))"

section \<open>JwtAuthGuard\<close>

text \<open>
  Error objects: a class and a message. \<^verbatim>\<open>handleRequest\<close> tests the classes of the token
  library with \<^verbatim>\<open>instanceof\<close>: \<^verbatim>\<open>TokenExpiredError\<close> and \<^verbatim>\<open>NotBeforeError\<close> extend
  \<^verbatim>\<open>JsonWebTokenError\<close>, which extends \<^verbatim>\<open>Error\<close> (\<open>PlainError\<close>). \<^verbatim>\<open>TypeError\<close> and
  \<^verbatim>\<open>RangeError\<close> are the runtime's own.
\<close>

datatype error_class =
  TokenExpiredError | NotBeforeError | JsonWebTokenError | TypeError | RangeError | PlainError

record js_error =
  error_cls :: error_class
  error_message :: string

definition instanceof_TokenExpiredError :: "js_error option \<Rightarrow> bool" where
  "instanceof_TokenExpiredError info =
     (case info of None \<Rightarrow> False | Some e \<Rightarrow> error_cls e = TokenExpiredError)"

definition instanceof_JsonWebTokenError :: "js_error option \<Rightarrow> bool" where
  "instanceof_JsonWebTokenError info =
     (case info of
        None \<Rightarrow> False
      | Some e \<Rightarrow> error_cls e = JsonWebTokenError \<or> error_cls e = TokenExpiredError
                  \<or> error_cls e = NotBeforeError)"

text \<open>\<^verbatim>\<open>info?.message === 'No auth token'\<close>\<close>

definition no_auth_token :: "js_error option \<Rightarrow> bool" where
  "no_auth_token info =
     (case info of None \<Rightarrow> False | Some e \<Rightarrow> error_message e = ''No auth token'')"

text \<open>
  \<^verbatim>\<open>JwtAuthGuard.handleRequest(err, user, info, context)\<close>. The identity has any type;
  \<open>None\<close> stands for every falsy value the validator may hand over.
\<close>

definition handleRequest ::
    "js_error option \<Rightarrow> 'u option \<Rightarrow> js_error option \<Rightarrow> request \<Rightarrow> http_exception + 'u" where
  "handleRequest err usr info req =
     (if instanceof_TokenExpiredError info then
        Inl (UnauthorizedException
          [(''message'', PStr ''Token has expired''),
           (''code'', PStr ''TOKEN_EXPIRED''),
           (''requestId'', PStr (requestId_or_default req))])
      else if instanceof_JsonWebTokenError info then
        Inl (UnauthorizedException
          [(''message'', PStr ''Invalid token''),
           (''code'', PStr ''INVALID_TOKEN''),
           (''requestId'', PStr (requestId_or_default req))])
      else if no_auth_token info then
        Inl (UnauthorizedException
          [(''message'', PStr ''Authentication token is required''),
           (''code'', PStr ''TOKEN_MISSING''),
           (''requestId'', PStr (requestId_or_default req))])
      else if err \<noteq> None \<or> usr = None then
        Inl (UnauthorizedException
          [(''message'', PStr ''Unauthorized access''),
           (''code'', PStr ''UNAUTHORIZED''),
           (''requestId'', PStr (requestId_or_default req))])
      else Inr (the usr))"

section \<open>TenantContextMiddleware\<close>

definition excludedPaths :: "string list" where
  "excludedPaths = [''/health'', ''/api/public'', ''/api/auth/register'']"

text \<open>\<^verbatim>\<open>process.env.DEFAULT_TENANT_ID || null\<close>\<close>

definition defaultTenant_of_env :: "string option \<Rightarrow> string option" where
  "defaultTenant_of_env env = (if truthy_str env then env else None)"

text \<open>\<^verbatim>\<open>s.startsWith(p)\<close>\<close>

definition startsWith :: "string \<Rightarrow> string \<Rightarrow> bool" where
  "startsWith s p = (take (length p) s = p)"

text \<open>\<^verbatim>\<open>isExcludedPath(path)\<close>\<close>

definition isExcludedPath :: "string \<Rightarrow> bool" where
  "isExcludedPath path =
     list_ex (\<lambda>excluded. path = excluded \<or> startsWith path (excluded @ ''/'')) excludedPaths"

text \<open>\<^verbatim>\<open>s.split(c)\<close> for a one-character separator: the empty string splits into one empty part.\<close>

fun split_on :: "char \<Rightarrow> string \<Rightarrow> string list" where
  "split_on c [] = [[]]"
| "split_on c (x # xs) =
     (if x = c then [] # split_on c xs
      else (case split_on c xs of
              [] \<Rightarrow> [[x]]
            | p # ps \<Rightarrow> (x # p) # ps))"

definition is_digit :: "char \<Rightarrow> bool" where
  "is_digit c = List.member ''0123456789'' c"

text \<open>
  The test \<^verbatim>\<open>/^\d+\.\d+\.\d+\.\d+$/\<close>: four non-empty runs of decimal digits, separated by
  dots, and nothing else.
\<close>

definition matches_ipv4 :: "string \<Rightarrow> bool" where
  "matches_ipv4 s =
     (let parts = split_on CHR ''.'' s
      in length parts = 4 \<and> list_all (\<lambda>p. p \<noteq> [] \<and> list_all is_digit p) parts)"

definition ignoredSubdomains :: "string list" where
  "ignoredSubdomains = [''www'', ''api'', ''admin'', ''app'']"

text \<open>\<^verbatim>\<open>extractSubdomain(hostname)\<close>\<close>

definition extractSubdomain :: "string \<Rightarrow> string option" where
  "extractSubdomain host =
     (if host = ''localhost'' \<or> matches_ipv4 host then None
      else
        (let parts = split_on CHR ''.'' host
         in if length parts \<ge> 3 then
              (let sub = hd parts
               in if \<not> List.member ignoredSubdomains sub then Some sub else None)
            else None))"

text \<open>Truthiness of a header value: every array is truthy, also the empty one.\<close>

fun truthy_header :: "header_value \<Rightarrow> bool" where
  "truthy_header Absent = False"
| "truthy_header (Single s) = (s \<noteq> [])"
| "truthy_header (Multi xs) = True"

text \<open>
  \<^verbatim>\<open>Array.isArray(headerTenantId) ? headerTenantId[0] : headerTenantId\<close>; index 0 of an empty
  array is \<^verbatim>\<open>undefined\<close>.
\<close>

fun first_or_self :: "header_value \<Rightarrow> string option" where
  "first_or_self Absent = None"
| "first_or_self (Single s) = Some s"
| "first_or_self (Multi []) = None"
| "first_or_self (Multi (x # xs)) = Some x"

text \<open>
  \<^verbatim>\<open>extractTenantContext(req)\<close>; the first argument is the field \<^verbatim>\<open>this.defaultTenant\<close>.
\<close>

definition extractTenantContext :: "string option \<Rightarrow> 'a request_scheme \<Rightarrow> tenant_context option" where
  "extractTenantContext defaultTenant req =
     (let headerTenantId = x_tenant_id req
      in if truthy_header headerTenantId then
           Some \<lparr>tenantId = first_or_self headerTenantId, subdomain = None,
                 source = header_source\<rparr>
         else
           (let sub = extractSubdomain (hostname req)
            in if truthy_str sub then
                 Some \<lparr>tenantId = sub, subdomain = sub, source = subdomain_source\<rparr>
               else if truthy_str defaultTenant then
                 Some \<lparr>tenantId = defaultTenant, subdomain = None, source = default_source\<rparr>
               else None))"

text \<open>
  What a \<^verbatim>\<open>catch\<close> clause receives: an \<^verbatim>\<open>Error\<close> object, or any other thrown value.
\<close>

datatype thrown = ErrorObject js_error | NonError

text \<open>
  \<^verbatim>\<open>TenantContextMiddleware.use(req, res, next)\<close>, up to the call of \<^verbatim>\<open>next\<close>: the result is
  the request and the response as \<^verbatim>\<open>next\<close> finds them, or the exception thrown instead.
  The response belongs to the HTTP framework, so its type is left open and its method
  \<^verbatim>\<open>setHeader\<close> is the first argument: it returns the response with the header set, or
  throws. The second argument is the field \<^verbatim>\<open>this.defaultTenant\<close>.
\<close>

definition TenantContextMiddleware_use ::
    "(string \<Rightarrow> string option \<Rightarrow> 'res \<Rightarrow> thrown + 'res) \<Rightarrow> string option \<Rightarrow>
     'a request_scheme \<Rightarrow> 'res \<Rightarrow> http_exception + ('a request_scheme \<times> 'res)" where
  "TenantContextMiddleware_use setHeader defaultTenant req res =
     (if isExcludedPath (originalUrl req) then Inr (req\<lparr>tenantContext := None\<rparr>, res)
      else
        (let tc = extractTenantContext defaultTenant req;
             req' = req\<lparr>tenantContext := tc\<rparr>
         in case tc of
              None \<Rightarrow> Inr (req', res)
            | Some t \<Rightarrow>
                (case setHeader ''x-tenant-id'' (tenantId t) res of
                   Inr res' \<Rightarrow> Inr (req', res')
                 | Inl err \<Rightarrow>
                     Inl (BadRequestException
                       [(''message'', PStr ''Unable to determine tenant context''),
                        (''requestId'', PStr (requestId_or_default req)),
                        (''error'', PStr (case err of
                                            ErrorObject e \<Rightarrow> error_message e
                                          | NonError \<Rightarrow> ''Unknown error occurred''))]))))"

section \<open>LoggerMiddleware\<close>

text \<open>
  Request bodies are object graphs, and a body may reach itself. Objects live in a store
  and are named by their address; a value is a primitive, a function, an array of values,
  or the address of an object. An object is the list of its own enumerable properties in
  property order. Symbols and the two infinities are left out: they are truthy
  non-objects and pass through as functions do.
\<close>

type_synonym addr = nat

datatype val =
    Undefined | Null | Bool bool | Num real | NaN | Str string | BigInt int
  | Fun nat | Arr "val list" | Ref addr

type_synonym obj = "(string \<times> val) list"

type_synonym heap = "addr \<Rightarrow> obj"

fun truthy :: "val \<Rightarrow> bool" where
  "truthy Undefined = False"
| "truthy Null = False"
| "truthy (Bool b) = b"
| "truthy (Num x) = (x \<noteq> 0)"
| "truthy NaN = False"
| "truthy (Str s) = (s \<noteq> [])"
| "truthy (BigInt n) = (n \<noteq> 0)"
| "truthy (Fun f) = True"
| "truthy (Arr xs) = True"
| "truthy (Ref a) = True"

definition sensitiveFields :: "string list" where
  "sensitiveFields =
     [''password'', ''token'', ''secret'', ''authorization'', ''creditCard'', ''cvv'']"

text \<open>
  One round of the first loop of \<^verbatim>\<open>sanitizeBody\<close>:
  \<^verbatim>\<open>if (sanitized[field]) { sanitized[field] = '[REDACTED]'; }\<close>
\<close>

definition redact :: "obj \<Rightarrow> string \<Rightarrow> obj" where
  "redact sanitized field =
     (case map_of sanitized field of
        None \<Rightarrow> sanitized
      | Some v \<Rightarrow>
          if truthy v then AList.update field (Str ''[REDACTED]'') sanitized else sanitized)"

text \<open>
  The result of \<^verbatim>\<open>sanitizeBody\<close> is a new object. Each of its properties holds either a
  value of the body as it was (\<open>Keep\<close>; an array is the very array of the body), or the
  new object that the recursive call returned (\<open>Fresh\<close>).
\<close>

datatype sval = Keep val | Fresh "(string \<times> sval) list"

text \<open>
  The second loop of \<^verbatim>\<open>sanitizeBody\<close>, over \<^verbatim>\<open>Object.keys(sanitized)\<close>: a property that holds
  an object (\<^verbatim>\<open>typeof\<close> is \<^verbatim>\<open>'object'\<close>, not \<^verbatim>\<open>null\<close>, not an array) is replaced by the result
  of the recursive call \<open>rec\<close>; the loop does not return when a call does not.
\<close>

fun nested :: "(addr \<Rightarrow> sval option) \<Rightarrow> obj \<Rightarrow> (string \<times> sval) list option" where
  "nested rec [] = Some []"
| "nested rec ((key, v) # rest) =
     (case (case v of Ref b \<Rightarrow> rec b | _ \<Rightarrow> Some (Keep v)) of
        None \<Rightarrow> None
      | Some sv \<Rightarrow>
          (case nested rec rest of
             None \<Rightarrow> None
           | Some rest' \<Rightarrow> Some ((key, sv) # rest')))"

text \<open>
  \<^verbatim>\<open>sanitizeBody(body)\<close>. The first argument is the number of calls that the call stack
  still has room for. \<open>None\<close> means that the call does not return: the recursion has used
  up the stack, and the runtime throws a \<^verbatim>\<open>RangeError\<close>.
\<close>

fun sanitizeBody :: "nat \<Rightarrow> heap \<Rightarrow> addr \<Rightarrow> sval option" where
  "sanitizeBody 0 h body = None"
| "sanitizeBody (Suc depth) h body =
     (case nested (\<lambda>b. sanitizeBody depth h b) (foldl redact (h body) sensitiveFields) of
        None \<Rightarrow> None
      | Some sanitized \<Rightarrow> Some (Fresh sanitized))"

text \<open>Reading a property path, \<^verbatim>\<open>v.k1.k2...\<close>, in the body and in the result.\<close>

fun lookup_in :: "heap \<Rightarrow> val \<Rightarrow> string list \<Rightarrow> val option" where
  "lookup_in h v [] = Some v"
| "lookup_in h (Ref a) (k # ks) =
     (case map_of (h a) k of None \<Rightarrow> None | Some v \<Rightarrow> lookup_in h v ks)"
| "lookup_in h v (k # ks) = None"

fun lookup_out :: "sval \<Rightarrow> string list \<Rightarrow> sval option" where
  "lookup_out sv [] = Some sv"
| "lookup_out (Fresh kvs) (k # ks) =
     (case map_of kvs k of None \<Rightarrow> None | Some sv \<Rightarrow> lookup_out sv ks)"
| "lookup_out (Keep v) (k # ks) = None"

text \<open>
  A body is nested less than \<open>n\<close> deep when every chain of object-valued properties that
  starts at it has fewer than \<open>n\<close> objects. A body that reaches itself along such
  properties is nested less than \<open>n\<close> deep for no \<open>n\<close>.
\<close>

fun nested_below :: "nat \<Rightarrow> heap \<Rightarrow> addr \<Rightarrow> bool" where
  "nested_below 0 h a = False"
| "nested_below (Suc n) h a =
     list_all (\<lambda>(k, v). case v of Ref b \<Rightarrow> nested_below n h b | _ \<Rightarrow> True) (h a)"

text \<open>The request as the logger reads it.\<close>

record logged_request = request +
  http_method :: string
  user_agent :: "string option"
  body :: "addr option"

datatype log_level = LOG | DEBUG | WARN | ERROR

type_synonym log_entry = "log_level \<times> string"

datatype completion = Returned | Threw thrown

text \<open>
  The first record of \<^verbatim>\<open>LoggerMiddleware.use\<close>, with \<^verbatim>\<open>headers['user-agent'] || 'unknown'\<close>.
\<close>

definition incoming :: "'a logged_request_scheme \<Rightarrow> log_entry" where
  "incoming req =
     (let userAgent = (if truthy_str (user_agent req) then the (user_agent req) else ''unknown'')
      in (LOG, ''['' @ requestId_or_default req @ ''] Incoming: '' @ http_method req @ '' ''
                 @ originalUrl req @ '' - UserAgent: '' @ userAgent))"

text \<open>
  \<^verbatim>\<open>LoggerMiddleware.use(req, res, next)\<close>, up to the call of \<^verbatim>\<open>next\<close>: the records handed to
  the logger, in order, and whether the method returned or threw. The body is absent
  (\<^verbatim>\<open>undefined\<close> or \<^verbatim>\<open>null\<close>) or an object. \<^verbatim>\<open>JSON.stringify\<close> belongs to the runtime and is
  the first argument: it returns the text or throws. The second argument is the room on
  the call stack. Registering the \<^verbatim>\<open>finish\<close> handler emits nothing and is left out.
\<close>

definition LoggerMiddleware_use ::
    "(heap \<Rightarrow> sval \<Rightarrow> thrown + string) \<Rightarrow> nat \<Rightarrow> heap \<Rightarrow> 'a logged_request_scheme \<Rightarrow>
     log_entry list \<times> completion" where
  "LoggerMiddleware_use stringify depth h req =
     (case body req of
        None \<Rightarrow> ([incoming req], Returned)
      | Some b \<Rightarrow>
          if length (h b) > 0 then
            (case sanitizeBody depth h b of
               None \<Rightarrow>
                 ([incoming req],
                  Threw (ErrorObject \<lparr>error_cls = RangeError,
                           error_message = ''Maximum call stack size exceeded''\<rparr>))
             | Some sanitizedBody \<Rightarrow>
                 (case stringify h sanitizedBody of
                    Inl err \<Rightarrow> ([incoming req], Threw err)
                  | Inr text \<Rightarrow>
                      ([incoming req,
                        (DEBUG, ''['' @ requestId_or_default req @ ''] Body: '' @ text)],
                       Returned)))
          else ([incoming req], Returned))"

section \<open>Properties of the guards\<close>

text \<open>
  C8. \<^verbatim>\<open>RolesGuard.canActivate\<close>: an absent or empty role requirement allows the request;
  a non-empty requirement without an attached identity is rejected with code
  \<^verbatim>\<open>USER_NOT_FOUND\<close> and message \<^verbatim>\<open>User not Authenticated\<close>; with an identity, the request is
  allowed exactly when the required roles and the identity's roles (none when the field
  is missing) have a role in common, and otherwise the rejection has code
  \<^verbatim>\<open>INSUFFICIENT_ROLES\<close>, message \<^verbatim>\<open>Insufficient permissions\<close> and both role lists as
  they were given.
\<close>

theorem roles_guard_decision:
  "(requiredRoles = None \<or> requiredRoles = Some [] \<longrightarrow>
      RolesGuard_canActivate requiredRoles req = Inr True)
   \<and> (requiredRoles = Some rr \<and> rr \<noteq> [] \<and> user req = None \<longrightarrow>
      RolesGuard_canActivate requiredRoles req =
        Inl (ForbiddenException
          [(''message'', PStr ''User not Authenticated''),
           (''code'', PStr ''USER_NOT_FOUND''),
           (''requestId'', PStr (requestId_or_default req))]))
   \<and> (requiredRoles = Some rr \<and> rr \<noteq> [] \<and> user req = Some u
        \<and> ur = (case roles u of None \<Rightarrow> [] | Some rs \<Rightarrow> rs) \<longrightarrow>
      (set rr \<inter> set ur \<noteq> {} \<longrightarrow> RolesGuard_canActivate requiredRoles req = Inr True)
      \<and> (set rr \<inter> set ur = {} \<longrightarrow>
          RolesGuard_canActivate requiredRoles req =
            Inl (ForbiddenException
              [(''message'', PStr ''Insufficient permissions''),
               (''code'', PStr ''INSUFFICIENT_ROLES''),
               (''requiredRoles'', PList rr),
               (''userRoles'', PList ur),
               (''requestId'', PStr (requestId_or_default req))])))"
  by (auto simp: RolesGuard_canActivate_def list_ex_iff Let_def
           split: option.splits)

theorem roles_guard_decision_witness:
  "RolesGuard_canActivate (Some [''admin''])
     \<lparr>requestId = Some ''r1'',
      user = Some \<lparr>userId = ''u1'', email = ''a@b.c'', userTenantId = None,
                   roles = Some [''user'', ''admin'']\<rparr>,
      tenantContext = None, x_tenant_id = Absent, hostname = ''localhost'',
      originalUrl = ''/api/articles''\<rparr> = Inr True
   \<and> RolesGuard_canActivate (Some [''admin'', ''superadmin''])
     \<lparr>requestId = Some ''r1'',
      user = Some \<lparr>userId = ''u1'', email = ''a@b.c'', userTenantId = None,
                   roles = Some [''user'', ''editor'']\<rparr>,
      tenantContext = None, x_tenant_id = Absent, hostname = ''localhost'',
      originalUrl = ''/api/articles''\<rparr> =
       Inl (ForbiddenException
              [(''message'', PStr ''Insufficient permissions''),
               (''code'', PStr ''INSUFFICIENT_ROLES''),
               (''requiredRoles'', PList [''admin'', ''superadmin'']),
               (''userRoles'', PList [''user'', ''editor'']),
               (''requestId'', PStr ''r1'')])
   \<and> RolesGuard_canActivate (Some [''admin''])
     \<lparr>requestId = None, user = None,
      tenantContext = None, x_tenant_id = Absent, hostname = ''localhost'',
      originalUrl = ''/api/articles''\<rparr> =
       Inl (ForbiddenException
          [(''message'', PStr ''User not Authenticated''),
           (''code'', PStr ''USER_NOT_FOUND''),
           (''requestId'', PStr ''no-request-id'')])"
  using roles_guard_decision [of "Some [''admin'']" 
     "\<lparr>requestId = Some ''r1'',
      user = Some \<lparr>userId = ''u1'', email = ''a@b.c'', userTenantId = None,
                   roles = Some [''user'', ''admin'']\<rparr>,
      tenantContext = None, x_tenant_id = Absent, hostname = ''localhost'',
      originalUrl = ''/api/articles''\<rparr>" "[''admin'']"
      "\<lparr>userId = ''u1'', email = ''a@b.c'', userTenantId = None,
                   roles = Some [''user'', ''admin'']\<rparr>" "[''user'', ''admin'']"]
    roles_guard_decision [of "Some [''admin'', ''superadmin'']" 
     "\<lparr>requestId = Some ''r1'',
      user = Some \<lparr>userId = ''u1'', email = ''a@b.c'', userTenantId = None,
                   roles = Some [''user'', ''editor'']\<rparr>,
      tenantContext = None, x_tenant_id = Absent, hostname = ''localhost'',
      originalUrl = ''/api/articles''\<rparr>" "[''admin'', ''superadmin'']"
      "\<lparr>userId = ''u1'', email = ''a@b.c'', userTenantId = None,
                   roles = Some [''user'', ''editor'']\<rparr>" "[''user'', ''editor'']"]
    roles_guard_decision [of "Some [''admin'']" 
     "\<lparr>requestId = None, user = None,
      tenantContext = None, x_tenant_id = Absent, hostname = ''localhost'',
      originalUrl = ''/api/articles''\<rparr>" "[''admin'']"]
  by (simp add: requestId_or_default_def)

text \<open>
  C7, as the code has it. \<^verbatim>\<open>FeatureFlagGuard.canActivate\<close>: an absent requirement, and also
  the empty string as requirement, allows the request; a non-empty flag that is not in
  the enabled set is rejected with code \<^verbatim>\<open>FEATURE_DISABLED\<close> whatever the tenant; an
  enabled flag whose exclusion list holds the resolved tenant id is rejected with the
  same code; for any other tenant id, and when no tenant was resolved, the request is
  allowed.
\<close>

theorem feature_guard_decision:
  "(requiredFlag = None \<or> requiredFlag = Some '''' \<longrightarrow>
      FeatureFlagGuard_canActivate requiredFlag req = Inr True)
   \<and> (requiredFlag = Some flag \<and> flag \<noteq> '''' \<and> flag \<notin> set enabledFeatures \<longrightarrow>
      FeatureFlagGuard_canActivate requiredFlag req =
        Inl (ForbiddenException
          [(''message'', PStr ''Feature not available''),
           (''code'', PStr ''FEATURE_DISABLED''),
           (''feature'', PStr flag),
           (''requestId'', PStr (requestId_or_default req))]))
   \<and> (requiredFlag = Some flag \<and> flag \<noteq> '''' \<and> flag \<in> set enabledFeatures
        \<and> tenantContext req = Some tc \<and> tenantId tc = Some t
        \<and> map_of disabledForTenants flag = Some ts \<and> t \<in> set ts \<longrightarrow>
      FeatureFlagGuard_canActivate requiredFlag req =
        Inl (ForbiddenException
          [(''message'', PStr ''Feature not available''),
           (''code'', PStr ''FEATURE_DISABLED''),
           (''feature'', PStr flag),
           (''requestId'', PStr (requestId_or_default req))]))
   \<and> (requiredFlag = Some flag \<and> flag \<noteq> '''' \<and> flag \<in> set enabledFeatures
        \<and> tenantContext req = Some tc \<and> tenantId tc = Some t
        \<and> (\<forall>ts. map_of disabledForTenants flag = Some ts \<longrightarrow> t \<notin> set ts) \<longrightarrow>
      FeatureFlagGuard_canActivate requiredFlag req = Inr True)
   \<and> (requiredFlag = Some flag \<and> flag \<noteq> '''' \<and> flag \<in> set enabledFeatures
        \<and> (tenantContext req = None \<or> (tenantContext req = Some tc \<and> tenantId tc = None)) \<longrightarrow>
      FeatureFlagGuard_canActivate requiredFlag req = Inr True)"
  by (auto simp: FeatureFlagGuard_canActivate_def isFeatureEnabled_def enabledFeatures_def
        disabledForTenants_def Let_def split: option.splits if_splits)

theorem feature_guard_decision_witness:
  "FeatureFlagGuard_canActivate (Some ''beta-reports'')
     \<lparr>requestId = Some ''r1'', user = None,
      tenantContext = Some \<lparr>tenantId = Some ''tenant-123'', subdomain = None, source = header_source\<rparr>,
      x_tenant_id = Single ''tenant-123'', hostname = ''localhost'', originalUrl = ''/api/reports''\<rparr>
     = Inl (ForbiddenException
          [(''message'', PStr ''Feature not available''),
           (''code'', PStr ''FEATURE_DISABLED''),
           (''feature'', PStr ''beta-reports''),
           (''requestId'', PStr ''r1'')])
   \<and> FeatureFlagGuard_canActivate (Some ''beta-reports'')
     \<lparr>requestId = Some ''r1'', user = None,
      tenantContext = Some \<lparr>tenantId = Some ''tenant-456'', subdomain = None, source = header_source\<rparr>,
      x_tenant_id = Single ''tenant-456'', hostname = ''localhost'', originalUrl = ''/api/reports''\<rparr>
     = Inr True
   \<and> FeatureFlagGuard_canActivate (Some ''beta-reports'')
     \<lparr>requestId = Some ''r1'', user = None, tenantContext = None,
      x_tenant_id = Absent, hostname = ''localhost'', originalUrl = ''/api/reports''\<rparr>
     = Inr True
   \<and> FeatureFlagGuard_canActivate (Some ''dark-mode'')
     \<lparr>requestId = None, user = None, tenantContext = None,
      x_tenant_id = Absent, hostname = ''localhost'', originalUrl = ''/api/reports''\<rparr>
     = Inl (ForbiddenException
          [(''message'', PStr ''Feature not available''),
           (''code'', PStr ''FEATURE_DISABLED''),
           (''feature'', PStr ''dark-mode''),
           (''requestId'', PStr ''no-request-id'')])
   \<and> FeatureFlagGuard_canActivate None
     \<lparr>requestId = None, user = None, tenantContext = None,
      x_tenant_id = Absent, hostname = ''localhost'', originalUrl = ''/api/reports''\<rparr>
     = Inr True"
  using
    feature_guard_decision [of "Some ''beta-reports''"
      "\<lparr>requestId = Some ''r1'', user = None,
        tenantContext = Some \<lparr>tenantId = Some ''tenant-123'', subdomain = None, source = header_source\<rparr>,
        x_tenant_id = Single ''tenant-123'', hostname = ''localhost'', originalUrl = ''/api/reports''\<rparr>"
      "''beta-reports''"
      "\<lparr>tenantId = Some ''tenant-123'', subdomain = None, source = header_source\<rparr>"
      "''tenant-123''" "[''tenant-123'']"]
    feature_guard_decision [of "Some ''beta-reports''"
      "\<lparr>requestId = Some ''r1'', user = None,
        tenantContext = Some \<lparr>tenantId = Some ''tenant-456'', subdomain = None, source = header_source\<rparr>,
        x_tenant_id = Single ''tenant-456'', hostname = ''localhost'', originalUrl = ''/api/reports''\<rparr>"
      "''beta-reports''"
      "\<lparr>tenantId = Some ''tenant-456'', subdomain = None, source = header_source\<rparr>"
      "''tenant-456''" "[''tenant-123'']"]
    feature_guard_decision [of "Some ''beta-reports''"
      "\<lparr>requestId = Some ''r1'', user = None, tenantContext = None,
        x_tenant_id = Absent, hostname = ''localhost'', originalUrl = ''/api/reports''\<rparr>"
      "''beta-reports''"]
    feature_guard_decision [of "Some ''dark-mode''"
      "\<lparr>requestId = None, user = None, tenantContext = None,
        x_tenant_id = Absent, hostname = ''localhost'', originalUrl = ''/api/reports''\<rparr>"
      "''dark-mode''"]
    feature_guard_decision [of None
      "\<lparr>requestId = None, user = None, tenantContext = None,
        x_tenant_id = Absent, hostname = ''localhost'', originalUrl = ''/api/reports''\<rparr>"]
  by (simp add: enabledFeatures_def disabledForTenants_def requestId_or_default_def)

text \<open>
  C7 as stated fails for the empty string as requirement: it is a flag outside the enabled
  set, and the request is allowed.
\<close>

theorem feature_guard_empty_flag_counterexample:
  "\<not> List.member enabledFeatures ''''
   \<and> FeatureFlagGuard_canActivate (Some '''')
        \<lparr>requestId = Some ''r1'', user = None, tenantContext = None, x_tenant_id = Absent,
         hostname = ''localhost'', originalUrl = ''/api/reports''\<rparr> = Inr True"
  by (simp add: FeatureFlagGuard_canActivate_def enabledFeatures_def)

text \<open>
  C4. \<^verbatim>\<open>JwtAuthGuard.handleRequest\<close>: an expired-token signal gives \<^verbatim>\<open>TOKEN_EXPIRED\<close> and
  \<^verbatim>\<open>Token has expired\<close> whatever else the validator reports, an identity included; without
  it, an invalid-token signal gives \<^verbatim>\<open>INVALID_TOKEN\<close> and \<^verbatim>\<open>Invalid token\<close>; without both,
  the missing-token message gives \<^verbatim>\<open>TOKEN_MISSING\<close> and \<^verbatim>\<open>Authentication token is required\<close>;
  without the three, an error or a missing identity gives \<^verbatim>\<open>UNAUTHORIZED\<close> and
  \<^verbatim>\<open>Unauthorized access\<close>; otherwise the identity is returned.
\<close>

theorem auth_gate_precedence:
  "(instanceof_TokenExpiredError info \<longrightarrow>
      handleRequest err usr info req =
        Inl (UnauthorizedException
          [(''message'', PStr ''Token has expired''),
           (''code'', PStr ''TOKEN_EXPIRED''),
           (''requestId'', PStr (requestId_or_default req))]))
   \<and> (\<not> instanceof_TokenExpiredError info \<and> instanceof_JsonWebTokenError info \<longrightarrow>
      handleRequest err usr info req =
        Inl (UnauthorizedException
          [(''message'', PStr ''Invalid token''),
           (''code'', PStr ''INVALID_TOKEN''),
           (''requestId'', PStr (requestId_or_default req))]))
   \<and> (\<not> instanceof_TokenExpiredError info \<and> \<not> instanceof_JsonWebTokenError info
        \<and> no_auth_token info \<longrightarrow>
      handleRequest err usr info req =
        Inl (UnauthorizedException
          [(''message'', PStr ''Authentication token is required''),
           (''code'', PStr ''TOKEN_MISSING''),
           (''requestId'', PStr (requestId_or_default req))]))
   \<and> (\<not> instanceof_TokenExpiredError info \<and> \<not> instanceof_JsonWebTokenError info
        \<and> \<not> no_auth_token info \<and> (err \<noteq> None \<or> usr = None) \<longrightarrow>
      handleRequest err usr info req =
        Inl (UnauthorizedException
          [(''message'', PStr ''Unauthorized access''),
           (''code'', PStr ''UNAUTHORIZED''),
           (''requestId'', PStr (requestId_or_default req))]))
   \<and> (\<not> instanceof_TokenExpiredError info \<and> \<not> instanceof_JsonWebTokenError info
        \<and> \<not> no_auth_token info \<and> err = None \<and> usr = Some u \<longrightarrow>
      handleRequest err usr info req = Inr u)"
  by (simp add: handleRequest_def)

theorem auth_gate_precedence_witness:
  "handleRequest None (Some ''alice'')
       (Some \<lparr>error_cls = TokenExpiredError, error_message = ''jwt expired''\<rparr>)
       \<lparr>requestId = Some ''r1'', user = None, tenantContext = None,
        x_tenant_id = Absent, hostname = ''localhost'', originalUrl = ''/api/articles''\<rparr>
     = Inl (UnauthorizedException
          [(''message'', PStr ''Token has expired''),
           (''code'', PStr ''TOKEN_EXPIRED''),
           (''requestId'', PStr ''r1'')])
   \<and> handleRequest (Some \<lparr>error_cls = PlainError, error_message = ''boom''\<rparr>) (None :: string option)
       (Some \<lparr>error_cls = JsonWebTokenError, error_message = ''No auth token''\<rparr>)
       \<lparr>requestId = Some ''r1'', user = None, tenantContext = None,
        x_tenant_id = Absent, hostname = ''localhost'', originalUrl = ''/api/articles''\<rparr>
     = Inl (UnauthorizedException
          [(''message'', PStr ''Invalid token''),
           (''code'', PStr ''INVALID_TOKEN''),
           (''requestId'', PStr ''r1'')])
   \<and> handleRequest (Some \<lparr>error_cls = PlainError, error_message = ''boom''\<rparr>) (None :: string option)
       (Some \<lparr>error_cls = PlainError, error_message = ''No auth token''\<rparr>)
       \<lparr>requestId = Some ''r1'', user = None, tenantContext = None,
        x_tenant_id = Absent, hostname = ''localhost'', originalUrl = ''/api/articles''\<rparr>
     = Inl (UnauthorizedException
          [(''message'', PStr ''Authentication token is required''),
           (''code'', PStr ''TOKEN_MISSING''),
           (''requestId'', PStr ''r1'')])
   \<and> handleRequest None (None :: string option) None
       \<lparr>requestId = None, user = None, tenantContext = None,
        x_tenant_id = Absent, hostname = ''localhost'', originalUrl = ''/api/articles''\<rparr>
     = Inl (UnauthorizedException
          [(''message'', PStr ''Unauthorized access''),
           (''code'', PStr ''UNAUTHORIZED''),
           (''requestId'', PStr ''no-request-id'')])
   \<and> handleRequest None (Some ''alice'') None
       \<lparr>requestId = None, user = None, tenantContext = None,
        x_tenant_id = Absent, hostname = ''localhost'', originalUrl = ''/api/articles''\<rparr>
     = Inr ''alice''"
  using
    auth_gate_precedence [of
       "Some \<lparr>error_cls = TokenExpiredError, error_message = ''jwt expired''\<rparr>"
       None "Some ''alice''"
       "\<lparr>requestId = Some ''r1'', user = None, tenantContext = None,
        x_tenant_id = Absent, hostname = ''localhost'', originalUrl = ''/api/articles''\<rparr>"]
    auth_gate_precedence [of
       "Some \<lparr>error_cls = JsonWebTokenError, error_message = ''No auth token''\<rparr>"
       "Some \<lparr>error_cls = PlainError, error_message = ''boom''\<rparr>" "None :: string option"
       "\<lparr>requestId = Some ''r1'', user = None, tenantContext = None,
        x_tenant_id = Absent, hostname = ''localhost'', originalUrl = ''/api/articles''\<rparr>"]
    auth_gate_precedence [of
       "Some \<lparr>error_cls = PlainError, error_message = ''No auth token''\<rparr>"
       "Some \<lparr>error_cls = PlainError, error_message = ''boom''\<rparr>" "None :: string option"
       "\<lparr>requestId = Some ''r1'', user = None, tenantContext = None,
        x_tenant_id = Absent, hostname = ''localhost'', originalUrl = ''/api/articles''\<rparr>"]
    auth_gate_precedence [of None None "None :: string option"
       "\<lparr>requestId = None, user = None, tenantContext = None,
        x_tenant_id = Absent, hostname = ''localhost'', originalUrl = ''/api/articles''\<rparr>"]
    auth_gate_precedence [of None None "Some ''alice''"
       "\<lparr>requestId = None, user = None, tenantContext = None,
        x_tenant_id = Absent, hostname = ''localhost'', originalUrl = ''/api/articles''\<rparr>"
       "''alice''"]
  by (simp add: instanceof_TokenExpiredError_def instanceof_JsonWebTokenError_def
        no_auth_token_def requestId_or_default_def)


section \<open>Properties of the tenant middleware\<close>

lemma startsWith_iff: "startsWith s p \<longleftrightarrow> (\<exists>rest. s = p @ rest)"
proof
  assume "startsWith s p"
  then have "s = p @ drop (length p) s"
    unfolding startsWith_def by (metis append_take_drop_id)
  then show "\<exists>rest. s = p @ rest" ..
next
  assume "\<exists>rest. s = p @ rest"
  then show "startsWith s p" unfolding startsWith_def by auto
qed

lemma isExcludedPath_iff:
  "isExcludedPath path \<longleftrightarrow>
      (\<exists>excluded \<in> {''/health'', ''/api/public'', ''/api/auth/register''}.
         path = excluded \<or> (\<exists>rest. path = excluded @ ''/'' @ rest))"
  by (simp add: isExcludedPath_def excludedPaths_def startsWith_iff)

lemma not_excluded_examples:
  "\<not> isExcludedPath ''/healthcheck''" "\<not> isExcludedPath ''/api/auth/login''"
  by (simp_all add: isExcludedPath_def excludedPaths_def startsWith_def)

text \<open>
  C6. A path is excluded exactly when it equals \<^verbatim>\<open>/health\<close>, \<^verbatim>\<open>/api/public\<close> or
  \<^verbatim>\<open>/api/auth/register\<close>, or starts with one of them followed by a slash. For an excluded
  path the middleware hands on the request with no tenant context and the response as
  it was, whatever \<^verbatim>\<open>setHeader\<close> would do, and throws nothing. \<^verbatim>\<open>/healthcheck\<close> and
  \<^verbatim>\<open>/api/auth/login\<close> are not excluded, and for a path that is not excluded the tenant
  context is the one \<^verbatim>\<open>extractTenantContext\<close> resolves.
\<close>

theorem excluded_paths_skip_resolution:
  "(isExcludedPath path \<longleftrightarrow>
      (\<exists>excluded \<in> {''/health'', ''/api/public'', ''/api/auth/register''}.
         path = excluded \<or> (\<exists>rest. path = excluded @ ''/'' @ rest)))
   \<and> (isExcludedPath (originalUrl req) \<longrightarrow>
        TenantContextMiddleware_use setHeader defaultTenant req res
          = Inr (req\<lparr>tenantContext := None\<rparr>, res))
   \<and> \<not> isExcludedPath ''/healthcheck''
   \<and> \<not> isExcludedPath ''/api/auth/login''
   \<and> (\<not> isExcludedPath (originalUrl req) \<and> extractTenantContext defaultTenant req = None \<longrightarrow>
        TenantContextMiddleware_use setHeader defaultTenant req res
          = Inr (req\<lparr>tenantContext := None\<rparr>, res))
   \<and> (\<not> isExcludedPath (originalUrl req) \<and> extractTenantContext defaultTenant req = Some tc
        \<and> setHeader ''x-tenant-id'' (tenantId tc) res = Inr res' \<longrightarrow>
        TenantContextMiddleware_use setHeader defaultTenant req res
          = Inr (req\<lparr>tenantContext := Some tc\<rparr>, res'))"
proof (intro conjI)
  show "isExcludedPath path \<longleftrightarrow>
      (\<exists>excluded \<in> {''/health'', ''/api/public'', ''/api/auth/register''}.
         path = excluded \<or> (\<exists>rest. path = excluded @ ''/'' @ rest))"
    by (rule isExcludedPath_iff)
qed (simp_all add: TenantContextMiddleware_use_def not_excluded_examples)

text \<open>
  C10. An \<^verbatim>\<open>x-tenant-id\<close> header that is present and empty is treated as an absent one: the
  result is the one for the request without the header, it never has the header as
  source, and it comes from the subdomain, else from the configured default, else there
  is none.
\<close>

theorem empty_header_falls_through:
  "x_tenant_id req = Single '''' \<Longrightarrow>
     extractTenantContext defaultTenant req
       = extractTenantContext defaultTenant (req\<lparr>x_tenant_id := Absent\<rparr>)
     \<and> (\<forall>tc. extractTenantContext defaultTenant req = Some tc \<longrightarrow> source tc \<noteq> header_source)
     \<and> (extractSubdomain (hostname req) = Some sub \<and> sub \<noteq> '''' \<longrightarrow>
          extractTenantContext defaultTenant req
            = Some \<lparr>tenantId = Some sub, subdomain = Some sub, source = subdomain_source\<rparr>)
     \<and> (\<not> truthy_str (extractSubdomain (hostname req)) \<and> defaultTenant = Some d \<and> d \<noteq> '''' \<longrightarrow>
          extractTenantContext defaultTenant req
            = Some \<lparr>tenantId = Some d, subdomain = None, source = default_source\<rparr>)
     \<and> (\<not> truthy_str (extractSubdomain (hostname req)) \<and> \<not> truthy_str defaultTenant \<longrightarrow>
          extractTenantContext defaultTenant req = None)"
  by (auto simp: extractTenantContext_def Let_def)

text \<open>What \<^verbatim>\<open>extractSubdomain\<close> returns for a tenant label and for a reserved one.\<close>

lemma extractSubdomain_Some:
  assumes "split_on CHR ''.'' host = sub # rest" and "2 \<le> length rest"
    and "\<not> matches_ipv4 host" and "sub \<notin> set ignoredSubdomains"
  shows "extractSubdomain host = Some sub"
proof -
  have "split_on CHR ''.'' ''localhost'' = [''localhost'']" by simp
  with assms(1,2) have "host \<noteq> ''localhost''" by auto
  with assms show ?thesis by (simp add: extractSubdomain_def Let_def)
qed

lemma extractSubdomain_reserved:
  "hd (split_on CHR ''.'' host) \<in> set ignoredSubdomains \<Longrightarrow> extractSubdomain host = None"
  by (simp add: extractSubdomain_def Let_def)

lemma set_ignoredSubdomains: "set ignoredSubdomains = {''www'', ''api'', ''admin'', ''app''}"
  by (simp add: ignoredSubdomains_def)

text \<open>
  C5, as the code has it. A non-empty \<^verbatim>\<open>x-tenant-id\<close> header, or the first element of a
  non-empty array of values, is the tenant id with source \<^verbatim>\<open>header\<close>, whatever the
  hostname and the default. Without the header, a hostname of three or more labels that
  is not a dotted quad and whose first label is non-empty and not reserved gives that
  label with source \<^verbatim>\<open>subdomain\<close>, whatever the default. Without the header, a reserved
  first label and a non-empty default give the default with source \<^verbatim>\<open>default\<close>.
\<close>

theorem tenant_precedence:
  "(x_tenant_id req = Single s \<and> s \<noteq> '''' \<longrightarrow>
      extractTenantContext defaultTenant req
        = Some \<lparr>tenantId = Some s, subdomain = None, source = header_source\<rparr>)
   \<and> (x_tenant_id req = Multi (x # xs) \<longrightarrow>
      extractTenantContext defaultTenant req
        = Some \<lparr>tenantId = Some x, subdomain = None, source = header_source\<rparr>)
   \<and> (x_tenant_id req = Absent \<and> split_on CHR ''.'' (hostname req) = sub # rest
        \<and> length rest \<ge> 2 \<and> \<not> matches_ipv4 (hostname req)
        \<and> sub \<noteq> '''' \<and> sub \<notin> {''www'', ''api'', ''admin'', ''app''} \<longrightarrow>
      extractTenantContext defaultTenant req
        = Some \<lparr>tenantId = Some sub, subdomain = Some sub, source = subdomain_source\<rparr>)
   \<and> (x_tenant_id req = Absent
        \<and> hd (split_on CHR ''.'' (hostname req)) \<in> {''www'', ''api'', ''admin'', ''app''}
        \<and> defaultTenant = Some d \<and> d \<noteq> '''' \<longrightarrow>
      extractTenantContext defaultTenant req
        = Some \<lparr>tenantId = Some d, subdomain = None, source = default_source\<rparr>)"
proof (intro conjI impI)
  assume "x_tenant_id req = Single s \<and> s \<noteq> ''''"
  then show "extractTenantContext defaultTenant req
        = Some \<lparr>tenantId = Some s, subdomain = None, source = header_source\<rparr>"
    by (simp add: extractTenantContext_def)
next
  assume "x_tenant_id req = Multi (x # xs)"
  then show "extractTenantContext defaultTenant req
        = Some \<lparr>tenantId = Some x, subdomain = None, source = header_source\<rparr>"
    by (simp add: extractTenantContext_def)
next
  assume a: "x_tenant_id req = Absent \<and> split_on CHR ''.'' (hostname req) = sub # rest
        \<and> length rest \<ge> 2 \<and> \<not> matches_ipv4 (hostname req)
        \<and> sub \<noteq> '''' \<and> sub \<notin> {''www'', ''api'', ''admin'', ''app''}"
  then have "extractSubdomain (hostname req) = Some sub"
    using extractSubdomain_Some [of "hostname req" sub rest]
    unfolding set_ignoredSubdomains by blast
  with a show "extractTenantContext defaultTenant req
        = Some \<lparr>tenantId = Some sub, subdomain = Some sub, source = subdomain_source\<rparr>"
    by (simp add: extractTenantContext_def Let_def)
next
  assume a: "x_tenant_id req = Absent
        \<and> hd (split_on CHR ''.'' (hostname req)) \<in> {''www'', ''api'', ''admin'', ''app''}
        \<and> defaultTenant = Some d \<and> d \<noteq> ''''"
  then have "extractSubdomain (hostname req) = None"
    using extractSubdomain_reserved [of "hostname req"]
    unfolding set_ignoredSubdomains by blast
  with a show "extractTenantContext defaultTenant req
        = Some \<lparr>tenantId = Some d, subdomain = None, source = default_source\<rparr>"
    by (simp add: extractTenantContext_def Let_def)
qed

text \<open>
  C5 as stated fails for a header that is present and empty: the tenant comes from the
  subdomain, not from the header.
\<close>

theorem tenant_empty_header_counterexample:
  "extractTenantContext None
     \<lparr>requestId = None, user = None, tenantContext = None, x_tenant_id = Single '''',
      hostname = ''acme.example.com'', originalUrl = ''/api/articles''\<rparr>
   = Some \<lparr>tenantId = Some ''acme'', subdomain = Some ''acme'', source = subdomain_source\<rparr>"
  by (simp add: extractTenantContext_def extractSubdomain_def matches_ipv4_def
        ignoredSubdomains_def Let_def)

theorem excluded_paths_skip_resolution_witness:
  "isExcludedPath ''/api/public/y''
   \<and> TenantContextMiddleware_use (\<lambda>name v hs. Inr ((name, v) # hs)) (Some ''main'')
       \<lparr>requestId = None, user = None, tenantContext = None, x_tenant_id = Single ''acme'',
        hostname = ''localhost'', originalUrl = ''/health/x''\<rparr> []
     = Inr (\<lparr>requestId = None, user = None, tenantContext = None, x_tenant_id = Single ''acme'',
        hostname = ''localhost'', originalUrl = ''/health/x''\<rparr>
              \<lparr>tenantContext := None\<rparr>, [])
   \<and> TenantContextMiddleware_use (\<lambda>name v hs. Inr ((name, v) # hs)) (Some ''main'')
       \<lparr>requestId = None, user = None, tenantContext = None, x_tenant_id = Single ''acme'',
        hostname = ''localhost'', originalUrl = ''/healthcheck''\<rparr> []
     = Inr (\<lparr>requestId = None, user = None, tenantContext = None, x_tenant_id = Single ''acme'',
        hostname = ''localhost'', originalUrl = ''/healthcheck''\<rparr>
              \<lparr>tenantContext := Some \<lparr>tenantId = Some ''acme'', subdomain = None,
                                       source = header_source\<rparr>\<rparr>,
            [(''x-tenant-id'', Some ''acme'')])
   \<and> TenantContextMiddleware_use (\<lambda>name v hs. Inr ((name, v) # hs)) None
       \<lparr>requestId = None, user = None, tenantContext = None, x_tenant_id = Absent,
        hostname = ''localhost'', originalUrl = ''/api/auth/login''\<rparr> []
     = Inr (\<lparr>requestId = None, user = None, tenantContext = None, x_tenant_id = Absent,
        hostname = ''localhost'', originalUrl = ''/api/auth/login''\<rparr>
              \<lparr>tenantContext := None\<rparr>, [])"
  using
    excluded_paths_skip_resolution [where path = "''/api/public/y''"
      and setHeader = "\<lambda>name v hs. Inr ((name, v) # hs)" and defaultTenant = "Some ''main''"
      and res = "[]" and req = "\<lparr>requestId = None, user = None, tenantContext = None, x_tenant_id = Single ''acme'',
        hostname = ''localhost'', originalUrl = ''/health/x''\<rparr>"]
    excluded_paths_skip_resolution [where path = "''/api/public/y''"
      and setHeader = "\<lambda>name v hs. Inr ((name, v) # hs)" and defaultTenant = "Some ''main''"
      and res = "[]" and req = "\<lparr>requestId = None, user = None, tenantContext = None, x_tenant_id = Single ''acme'',
        hostname = ''localhost'', originalUrl = ''/healthcheck''\<rparr>"
      and tc = "\<lparr>tenantId = Some ''acme'', subdomain = None, source = header_source\<rparr>"
      and res' = "[(''x-tenant-id'', Some ''acme'')]"]
    excluded_paths_skip_resolution [where path = "''/api/public/y''"
      and setHeader = "\<lambda>name v hs. Inr ((name, v) # hs)" and defaultTenant = "None"
      and res = "[]" and req = "\<lparr>requestId = None, user = None, tenantContext = None, x_tenant_id = Absent,
        hostname = ''localhost'', originalUrl = ''/api/auth/login''\<rparr>"]
  by (simp add: isExcludedPath_def excludedPaths_def startsWith_def extractTenantContext_def
        extractSubdomain_def Let_def)

theorem empty_header_falls_through_witness:
  "extractTenantContext (Some ''main'') \<lparr>requestId = None, user = None, tenantContext = None, x_tenant_id = Single '''',
        hostname = ''acme.example.com'', originalUrl = ''/api/articles''\<rparr>
     = Some \<lparr>tenantId = Some ''acme'', subdomain = Some ''acme'', source = subdomain_source\<rparr>
   \<and> extractTenantContext (Some ''main'') \<lparr>requestId = None, user = None, tenantContext = None, x_tenant_id = Single '''',
        hostname = ''localhost'', originalUrl = ''/api/articles''\<rparr>
     = Some \<lparr>tenantId = Some ''main'', subdomain = None, source = default_source\<rparr>
   \<and> extractTenantContext None \<lparr>requestId = None, user = None, tenantContext = None, x_tenant_id = Single '''',
        hostname = ''localhost'', originalUrl = ''/api/articles''\<rparr> = None"
proof -
  have sub: "extractSubdomain ''acme.example.com'' = Some ''acme''"
    by (simp add: extractSubdomain_def matches_ipv4_def ignoredSubdomains_def Let_def)
  have loc: "extractSubdomain ''localhost'' = None"
    by (simp add: extractSubdomain_def)
  have h1: "x_tenant_id \<lparr>requestId = None, user = None, tenantContext = None, x_tenant_id = Single '''',
        hostname = ''acme.example.com'', originalUrl = ''/api/articles''\<rparr> = Single ''''"
    by simp
  have h2: "x_tenant_id \<lparr>requestId = None, user = None, tenantContext = None, x_tenant_id = Single '''',
        hostname = ''localhost'', originalUrl = ''/api/articles''\<rparr> = Single ''''"
    by simp
  note a = empty_header_falls_through [OF h1, where defaultTenant = "Some ''main''"
             and sub = "''acme''", THEN conjunct2, THEN conjunct2]
  note b = empty_header_falls_through [OF h2, where defaultTenant = "Some ''main''"
             and d = "''main''", THEN conjunct2, THEN conjunct2]
  note c = empty_header_falls_through [OF h2, where defaultTenant = "None",
             THEN conjunct2, THEN conjunct2]
  show ?thesis
    using a b c sub loc by simp
qed

theorem tenant_precedence_witness:
  "extractTenantContext (Some ''main'') \<lparr>requestId = None, user = None, tenantContext = None, x_tenant_id = Single ''t9'',
        hostname = ''acme.example.com'', originalUrl = ''/api/articles''\<rparr>
     = Some \<lparr>tenantId = Some ''t9'', subdomain = None, source = header_source\<rparr>
   \<and> extractTenantContext (Some ''main'') \<lparr>requestId = None, user = None, tenantContext = None, x_tenant_id = Multi [''t1'', ''t2''],
        hostname = ''tenant.example.com'', originalUrl = ''/api/articles''\<rparr>
     = Some \<lparr>tenantId = Some ''t1'', subdomain = None, source = header_source\<rparr>
   \<and> extractTenantContext (Some ''main'') \<lparr>requestId = None, user = None, tenantContext = None, x_tenant_id = Absent,
        hostname = ''acme.example.com'', originalUrl = ''/api/articles''\<rparr>
     = Some \<lparr>tenantId = Some ''acme'', subdomain = Some ''acme'', source = subdomain_source\<rparr>
   \<and> extractTenantContext (Some ''main'') \<lparr>requestId = None, user = None, tenantContext = None, x_tenant_id = Absent,
        hostname = ''www.example.com'', originalUrl = ''/api/articles''\<rparr>
     = Some \<lparr>tenantId = Some ''main'', subdomain = None, source = default_source\<rparr>"
  using
    tenant_precedence [where defaultTenant = "Some ''main''" and s = "''t9''"
      and req = "\<lparr>requestId = None, user = None, tenantContext = None, x_tenant_id = Single ''t9'',
        hostname = ''acme.example.com'', originalUrl = ''/api/articles''\<rparr>"]
    tenant_precedence [where defaultTenant = "Some ''main''" and x = "''t1''" and xs = "[''t2'']"
      and req = "\<lparr>requestId = None, user = None, tenantContext = None, x_tenant_id = Multi [''t1'', ''t2''],
        hostname = ''tenant.example.com'', originalUrl = ''/api/articles''\<rparr>"]
    tenant_precedence [where defaultTenant = "Some ''main''" and sub = "''acme''"
      and rest = "[''example'', ''com'']"
      and req = "\<lparr>requestId = None, user = None, tenantContext = None, x_tenant_id = Absent,
        hostname = ''acme.example.com'', originalUrl = ''/api/articles''\<rparr>"]
    tenant_precedence [where defaultTenant = "Some ''main''" and d = "''main''"
      and req = "\<lparr>requestId = None, user = None, tenantContext = None, x_tenant_id = Absent,
        hostname = ''www.example.com'', originalUrl = ''/api/articles''\<rparr>"]
  by (simp add: matches_ipv4_def Let_def)

section \<open>Properties of the body sanitizer and the request logger\<close>

text \<open>One round of redaction, and all of them, seen through the property lookup.\<close>

lemma map_of_redact:
  "map_of (redact ob f) k =
     (case map_of ob k of
        None \<Rightarrow> None
      | Some v \<Rightarrow> if k = f \<and> truthy v then Some (Str ''[REDACTED]'') else Some v)"
  by (auto simp: redact_def update_conv' split: option.splits)

lemma map_of_foldl_redact:
  "map_of (foldl redact ob fs) k =
     (case map_of ob k of
        None \<Rightarrow> None
      | Some v \<Rightarrow> if k \<in> set fs \<and> truthy v then Some (Str ''[REDACTED]'') else Some v)"
  by (induction fs arbitrary: ob) (auto simp: map_of_redact split: option.splits)

text \<open>The second loop keeps the keys, and calls \<open>rec\<close> on the objects only.\<close>

lemma nested_keys: "nested rec kvs = Some out \<Longrightarrow> map fst out = map fst kvs"
  by (induction kvs arbitrary: out) (auto split: option.splits)

lemma nested_map_of:
  "nested rec kvs = Some out \<Longrightarrow>
   map_of out k =
     (case map_of kvs k of
        None \<Rightarrow> None
      | Some v \<Rightarrow> (case v of Ref b \<Rightarrow> rec b | _ \<Rightarrow> Some (Keep v)))"
  by (induction kvs arbitrary: out) (auto split: option.splits val.splits)

lemma nested_map_of_Some:
  assumes "nested rec kvs = Some out" and "map_of kvs k = Some v"
  shows "\<exists>sv. map_of out k = Some sv"
proof -
  from assms(2) have "map_of kvs k \<noteq> None" by simp
  then have "k \<in> fst ` set kvs" by (simp add: map_of_eq_None_iff)
  then have "k \<in> fst ` set out" using nested_keys [OF assms(1)] by (metis set_map)
  then have "map_of out k \<noteq> None" by (simp add: map_of_eq_None_iff)
  then show ?thesis by auto
qed


text \<open>One level of \<^verbatim>\<open>sanitizeBody\<close>: what the result holds under a key of the body.\<close>

lemma sanitizeBody_field:
  assumes "sanitizeBody d h a = Some r" and "map_of (h a) k = Some v"
  shows "\<exists>d' sv. d = Suc d' \<and> lookup_out r [k] = Some sv \<and>
           (if k \<in> set sensitiveFields \<and> truthy v then sv = Keep (Str ''[REDACTED]'')
            else (case v of Ref b \<Rightarrow> sanitizeBody d' h b = Some sv | _ \<Rightarrow> sv = Keep v))"
proof (cases d)
  case 0
  with assms(1) show ?thesis by simp
next
  case (Suc d')
  with assms(1) obtain out where
    n: "nested (\<lambda>b. sanitizeBody d' h b) (foldl redact (h a) sensitiveFields) = Some out"
    and r: "r = Fresh out"
    by (auto split: option.splits)
  let ?w = "if k \<in> set sensitiveFields \<and> truthy v then Str ''[REDACTED]'' else v"
  have m: "map_of (foldl redact (h a) sensitiveFields) k = Some ?w"
    using assms(2) by (simp add: map_of_foldl_redact)
  obtain sv where sv: "map_of out k = Some sv"
    using nested_map_of_Some [OF n m] by blast
  have "map_of out k = (case ?w of Ref b \<Rightarrow> sanitizeBody d' h b | _ \<Rightarrow> Some (Keep ?w))"
    using nested_map_of [OF n, of k] m by simp
  with sv have "(if k \<in> set sensitiveFields \<and> truthy v then sv = Keep (Str ''[REDACTED]'')
            else (case v of Ref b \<Rightarrow> sanitizeBody d' h b = Some sv | _ \<Rightarrow> sv = Keep v))"
    by (auto split: val.splits if_splits)
  with sv r Suc show ?thesis by simp
qed

text \<open>Property paths, and \<^verbatim>\<open>sanitizeBody\<close> along a path without sensitive names.\<close>

lemma lookup_in_append:
  "lookup_in h x (p @ q) = (case lookup_in h x p of None \<Rightarrow> None | Some y \<Rightarrow> lookup_in h y q)"
  by (induction h x p rule: lookup_in.induct) (auto split: option.splits)

lemma lookup_out_append:
  "lookup_out x (p @ q) = (case lookup_out x p of None \<Rightarrow> None | Some y \<Rightarrow> lookup_out y q)"
  by (induction x p rule: lookup_out.induct) (auto split: option.splits)

lemma lookup_in_single:
  "lookup_in h x [k] = Some v \<Longrightarrow> \<exists>b. x = Ref b \<and> map_of (h b) k = Some v"
  by (cases x) (auto split: option.splits)

lemma lookup_in_Cons:
  "lookup_in h x (k # ks) = Some v \<Longrightarrow>
   \<exists>b y. x = Ref b \<and> map_of (h b) k = Some y \<and> lookup_in h y ks = Some v"
  by (cases x) (auto split: option.splits)

lemma sanitizeBody_path:
  assumes "sanitizeBody d h a = Some r"
    and "\<forall>k \<in> set p. k \<notin> set sensitiveFields"
    and "lookup_in h (Ref a) p = Some (Ref b)"
  shows "\<exists>d' rb. d = d' + length p \<and> sanitizeBody d' h b = Some rb \<and> lookup_out r p = Some rb"
  using assms
proof (induction p arbitrary: d a r)
  case Nil
  then show ?case by auto
next
  case (Cons k ks)
  from Cons.prems(3) obtain y where
    y: "map_of (h a) k = Some y" and rest: "lookup_in h y ks = Some (Ref b)"
    by (auto split: option.splits)
  from rest obtain c where c: "y = Ref c"
    by (cases ks; cases y) auto
  from Cons.prems(2) have k: "k \<notin> set sensitiveFields" by simp
  from sanitizeBody_field [OF Cons.prems(1) y] k c obtain d' sv where
    d: "d = Suc d'" and sv: "lookup_out r [k] = Some sv" and rc: "sanitizeBody d' h c = Some sv"
    by auto
  from Cons.IH [OF rc _ rest [unfolded c]] Cons.prems(2) obtain d'' rb where
    "d' = d'' + length ks" "sanitizeBody d'' h b = Some rb" "lookup_out sv ks = Some rb"
    by auto
  moreover have "lookup_out r (k # ks) = lookup_out sv ks"
    using sv lookup_out_append [of r "[k]" ks] by simp
  ultimately show ?case using d by auto
qed

text \<open>\<^verbatim>\<open>sanitizeBody\<close> returns on a body nested less deep than the stack has room.\<close>

lemma set_update_subset: "x \<in> set (AList.update k v al) \<Longrightarrow> x \<in> set al \<or> x = (k, v)"
  by (induction al) (auto split: if_splits)

lemma foldl_redact_set:
  "(k, v) \<in> set (foldl redact ob fs) \<Longrightarrow> (k, v) \<in> set ob \<or> v = Str ''[REDACTED]''"
proof (induction fs arbitrary: ob)
  case Nil
  then show ?case by simp
next
  case (Cons f fs)
  from Cons.IH [OF Cons.prems [simplified]]
  have "(k, v) \<in> set (redact ob f) \<or> v = Str ''[REDACTED]''" .
  moreover have "(k, v) \<in> set (redact ob f) \<Longrightarrow> (k, v) \<in> set ob \<or> v = Str ''[REDACTED]''"
    by (auto simp: redact_def split: option.splits if_splits dest: set_update_subset)
  ultimately show ?case by blast
qed

lemma nested_total:
  "(\<And>k b. (k, Ref b) \<in> set kvs \<Longrightarrow> rec b \<noteq> None) \<Longrightarrow> \<exists>out. nested rec kvs = Some out"
proof (induction kvs)
  case Nil
  then show ?case by simp
next
  case (Cons kv kvs)
  obtain k v where kv: "kv = (k, v)" by (cases kv)
  from Cons.IH Cons.prems obtain out where out: "nested rec kvs = Some out"
    by (meson list.set_intros(2))
  show ?case
  proof (cases v)
    case (Ref b)
    with Cons.prems kv obtain sv where "rec b = Some sv" by fastforce
    with out kv Ref show ?thesis by simp
  qed (use out kv in simp_all)
qed

lemma sanitizeBody_total:
  "nested_below n h a \<Longrightarrow> \<exists>r. sanitizeBody n h a = Some r"
proof (induction n arbitrary: a)
  case 0
  then show ?case by simp
next
  case (Suc n)
  have "\<exists>out. nested (\<lambda>b. sanitizeBody n h b) (foldl redact (h a) sensitiveFields) = Some out"
  proof (rule nested_total)
    fix k b
    assume "(k, Ref b) \<in> set (foldl redact (h a) sensitiveFields)"
    then have "(k, Ref b) \<in> set (h a)" using foldl_redact_set by fastforce
    with Suc.prems have "nested_below n h b" by (auto simp: list_all_iff)
    with Suc.IH show "sanitizeBody n h b \<noteq> None" by fastforce
  qed
  then show ?case by auto
qed


lemma set_sensitiveFields:
  "set sensitiveFields =
     {''password'', ''token'', ''secret'', ''authorization'', ''creditCard'', ''cvv''}"
  by (simp add: sensitiveFields_def)

text \<open>An object that reaches itself is nested less than \<open>n\<close> deep for no \<open>n\<close>.\<close>

lemma nested_below_step:
  assumes "nested_below n h a" and "map_of (h a) k = Some (Ref b)"
  shows "\<exists>m. n = Suc m \<and> nested_below m h b"
proof (cases n)
  case 0
  with assms(1) show ?thesis by simp
next
  case (Suc m)
  from assms(2) have "(k, Ref b) \<in> set (h a)" by (rule map_of_SomeD)
  with assms(1) Suc have "nested_below m h b" by (auto simp: list_all_iff)
  with Suc show ?thesis by simp
qed

lemma nested_below_path:
  assumes "nested_below n h a" and "lookup_in h (Ref a) p = Some (Ref b)"
  shows "\<exists>m. n = m + length p \<and> nested_below m h b"
  using assms
proof (induction p arbitrary: n a)
  case Nil
  then show ?case by simp
next
  case (Cons k ks)
  from lookup_in_Cons [OF Cons.prems(2)] obtain y where
    y: "map_of (h a) k = Some y" and rest: "lookup_in h y ks = Some (Ref b)"
    by auto
  from rest obtain c where c: "y = Ref c"
    by (cases ks; cases y) auto
  from nested_below_step [OF Cons.prems(1) y [unfolded c]] obtain m where
    m: "n = Suc m" "nested_below m h c" by auto
  from Cons.IH [OF m(2) rest [unfolded c]] obtain m' where
    "m = m' + length ks" "nested_below m' h b" by auto
  with m(1) show ?case by auto
qed

lemma cycle_not_nested_below:
  assumes "lookup_in h (Ref c) p = Some (Ref c)" and "p \<noteq> []"
  shows "\<not> nested_below n h c"
proof (induction n rule: less_induct)
  case (less n)
  show ?case
  proof
    assume "nested_below n h c"
    from nested_below_path [OF this assms(1)] obtain m where
      "n = m + length p" "nested_below m h c" by auto
    moreover from assms(2) have "0 < length p" by simp
    ultimately show False using less.IH [of m] by simp
  qed
qed

text \<open>An object that reaches itself: no stack is deep enough.\<close>

lemma sanitizeBody_cycle:
  assumes "lookup_in h (Ref c) p = Some (Ref c)" and "p \<noteq> []"
    and "\<forall>k \<in> set p. k \<notin> set sensitiveFields"
  shows "sanitizeBody d h c = None"
proof (induction d rule: less_induct)
  case (less d)
  show ?case
  proof (rule ccontr)
    assume "sanitizeBody d h c \<noteq> None"
    then obtain r where "sanitizeBody d h c = Some r" by auto
    from sanitizeBody_path [OF this assms(3) assms(1)] obtain d' rb where
      "d = d' + length p" "sanitizeBody d' h c = Some rb" by auto
    moreover from assms(2) have "0 < length p" by simp
    ultimately show False using less.IH [of d'] by simp
  qed
qed

text \<open>
  C1 fails on the code, which keeps no record of the objects it is visiting. For every
  body from which an object can be reached that reaches itself again, along properties
  that are not redacted, \<^verbatim>\<open>sanitizeBody\<close> does not return, however much room the call stack
  has: no marker is put in the place of the cycle, and the runtime throws.
\<close>

theorem cyclic_body_never_returns:
  assumes "lookup_in h (Ref a) q = Some (Ref c)"
    and "lookup_in h (Ref c) p = Some (Ref c)" and "p \<noteq> []"
    and "\<forall>k \<in> set (q @ p).
           k \<notin> {''password'', ''token'', ''secret'', ''authorization'', ''creditCard'', ''cvv''}"
  shows "sanitizeBody depth h a = None"
proof (rule ccontr)
  assume "sanitizeBody depth h a \<noteq> None"
  then obtain r where r: "sanitizeBody depth h a = Some r" by auto
  from assms(4) have q: "\<forall>k \<in> set q. k \<notin> set sensitiveFields"
    and p: "\<forall>k \<in> set p. k \<notin> set sensitiveFields"
    unfolding set_sensitiveFields by auto
  from sanitizeBody_path [OF r q assms(1)] obtain d' rb where
    "sanitizeBody d' h c = Some rb" by auto
  with sanitizeBody_cycle [OF assms(2,3) p, of d'] show False by simp
qed

theorem cyclic_body_never_returns_witness:
  "(\<forall>depth.
      sanitizeBody depth ((\<lambda>_. [])(0 := [(''name'', Str ''test''), (''self'', Ref 0)])) 0 = None)
   \<and> (\<forall>depth.
      sanitizeBody depth
        ((\<lambda>_. [])(0 := [(''name'', Str ''test''), (''nested'', Ref 1)],
                   1 := [(''value'', Str ''nested''), (''circular'', Ref 1)])) 0 = None)"
proof (intro conjI allI)
  fix depth
  show "sanitizeBody depth ((\<lambda>_. [])(0 := [(''name'', Str ''test''), (''self'', Ref 0)])) 0 = None"
    using
      cyclic_body_never_returns [where a = 0 and c = 0 and q = "[]" and p = "[''self'']"
        and h = "(\<lambda>_. [])(0 := [(''name'', Str ''test''), (''self'', Ref 0)])"
        and depth = depth]
    by simp
  show "sanitizeBody depth
        ((\<lambda>_. [])(0 := [(''name'', Str ''test''), (''nested'', Ref 1)],
                   1 := [(''value'', Str ''nested''), (''circular'', Ref 1)])) 0 = None"
    using
      cyclic_body_never_returns [where a = 0 and c = 1 and q = "[''nested'']"
        and p = "[''circular'']"
        and h = "(\<lambda>_. [])(0 := [(''name'', Str ''test''), (''nested'', Ref 1)],
                     1 := [(''value'', Str ''nested''), (''circular'', Ref 1)])"
        and depth = depth]
    by simp
qed

text \<open>
  C3, as the code has it. For a body nested less than \<open>n\<close> deep and a stack with room for
  \<open>n\<close> calls, \<^verbatim>\<open>sanitizeBody\<close> returns, and for every property path through objects that ends
  in one of the six names and has none of them before: a truthy value there is replaced
  by \<^verbatim>\<open>'[REDACTED]'\<close>, whatever its type; a falsy value is left as it is; and what the body
  holds below that property is not in the result.
\<close>

theorem redaction_of_sensitive_keys:
  assumes "nested_below n h a"
    and "lookup_in h (Ref a) (p @ [k]) = Some v"
    and "k \<in> {''password'', ''token'', ''secret'', ''authorization'', ''creditCard'', ''cvv''}"
    and "\<forall>k' \<in> set p.
           k' \<notin> {''password'', ''token'', ''secret'', ''authorization'', ''creditCard'', ''cvv''}"
  shows "\<exists>r. sanitizeBody n h a = Some r
           \<and> (truthy v \<longrightarrow> lookup_out r (p @ [k]) = Some (Keep (Str ''[REDACTED]'')))
           \<and> (\<not> truthy v \<longrightarrow> lookup_out r (p @ [k]) = Some (Keep v))
           \<and> (\<forall>rest w. rest \<noteq> [] \<and> lookup_in h v rest = Some w \<longrightarrow>
                 lookup_out r (p @ [k] @ rest) = None)"
proof -
  from sanitizeBody_total [OF assms(1)] obtain r where r: "sanitizeBody n h a = Some r" by auto
  from assms(2) obtain y where y: "lookup_in h (Ref a) p = Some y"
    and v: "lookup_in h y [k] = Some v"
    by (auto simp: lookup_in_append split: option.splits)
  from lookup_in_single [OF v] obtain b where b: "y = Ref b" "map_of (h b) k = Some v" by auto
  from assms(4) have p: "\<forall>k' \<in> set p. k' \<notin> set sensitiveFields"
    unfolding set_sensitiveFields by auto
  from sanitizeBody_path [OF r p y [unfolded b(1)]] obtain d' rb where
    rb: "sanitizeBody d' h b = Some rb" "lookup_out r p = Some rb" by auto
  from assms(3) have k: "k \<in> set sensitiveFields" unfolding set_sensitiveFields by auto
  from sanitizeBody_field [OF rb(1) b(2)] k obtain sv where
    sv: "lookup_out rb [k] = Some sv"
      "if truthy v then sv = Keep (Str ''[REDACTED]'')
       else (case v of Ref b \<Rightarrow> True | _ \<Rightarrow> sv = Keep v)"
    by (auto split: if_splits val.splits)
  have at_k: "lookup_out r (p @ [k]) = Some sv"
    using rb(2) sv(1) by (simp add: lookup_out_append)
  have falsy: "\<not> truthy v \<Longrightarrow> sv = Keep v"
    using sv(2) by (cases v) auto
  have redacted: "truthy v \<Longrightarrow> sv = Keep (Str ''[REDACTED]'')"
    using sv(2) by simp
  have below: "lookup_out r (p @ [k] @ rest) = None"
    if "rest \<noteq> []" and "lookup_in h v rest = Some w" for rest w
  proof -
    from that obtain k' ks where rest: "rest = k' # ks" by (cases rest) auto
    with that(2) obtain c where "v = Ref c" using lookup_in_Cons by blast
    then have "sv = Keep (Str ''[REDACTED]'')" using redacted by simp
    then have "lookup_out sv rest = None" using rest by simp
    moreover have "lookup_out r ((p @ [k]) @ rest) = lookup_out sv rest"
      using at_k by (simp only: lookup_out_append option.case)
    ultimately show ?thesis by simp
  qed
  show ?thesis using r at_k falsy redacted below by auto
qed

theorem redaction_of_sensitive_keys_witness:
  "\<exists>r. sanitizeBody (Suc (Suc 0))
          ((\<lambda>_. [])(0 := [(''user'', Ref 1), (''data'', Str ''test'')],
                     1 := [(''name'', Str ''john''), (''password'', Str ''secret'')])) 0 = Some r
       \<and> lookup_out r [''user'', ''password''] = Some (Keep (Str ''[REDACTED]''))"
proof -
  have h1: "nested_below (Suc (Suc 0))
          ((\<lambda>_. [])(0 := [(''user'', Ref 1), (''data'', Str ''test'')],
                     1 := [(''name'', Str ''john''), (''password'', Str ''secret'')])) 0"
    by simp
  have h2: "lookup_in
          ((\<lambda>_. [])(0 := [(''user'', Ref 1), (''data'', Str ''test'')],
                     1 := [(''name'', Str ''john''), (''password'', Str ''secret'')])) (Ref 0) ([''user''] @ [''password'']) = Some (Str ''secret'')"
    by simp
  have h3: "''password'' \<in> {''password'', ''token'', ''secret'', ''authorization'', ''creditCard'', ''cvv''}"
    by simp
  have h4: "\<forall>k' \<in> set [''user'']. k' \<notin> {''password'', ''token'', ''secret'', ''authorization'', ''creditCard'', ''cvv''}"
    by simp
  from redaction_of_sensitive_keys [OF h1 h2 h3 h4] obtain r where
    r: "sanitizeBody (Suc (Suc 0))
          ((\<lambda>_. [])(0 := [(''user'', Ref 1), (''data'', Str ''test'')],
                     1 := [(''name'', Str ''john''), (''password'', Str ''secret'')])) 0 = Some r"
    and at: "truthy (Str ''secret'') \<longrightarrow>
          lookup_out r ([''user''] @ [''password'']) = Some (Keep (Str ''[REDACTED]''))"
    by blast
  from at have "lookup_out r [''user'', ''password''] = Some (Keep (Str ''[REDACTED]''))"
    by simp
  with r show ?thesis by blast
qed

text \<open>
  C3 as stated fails for falsy values: an empty password and a \<^verbatim>\<open>cvv\<close> of zero are in the
  result as they were.
\<close>

theorem falsy_sensitive_value_counterexample:
  "sanitizeBody (Suc 0)
     ((\<lambda>_. [])(0 := [(''username'', Str ''john''), (''password'', Str ''''), (''cvv'', Num 0)])) 0
   = Some (Fresh [(''username'', Keep (Str ''john'')), (''password'', Keep (Str '''')),
                  (''cvv'', Keep (Num 0))])"
  by (simp add: sensitiveFields_def redact_def)

text \<open>
  C9, as the code has it. For a body nested less than \<open>n\<close> deep and a stack with room for
  \<open>n\<close> calls, \<^verbatim>\<open>sanitizeBody\<close> returns, and for every property path through objects that has
  none of the six names on it and ends in an array, the result holds that array with
  the elements it had: objects among them are the objects of the body, not sanitized
  copies.
\<close>

theorem arrays_pass_through:
  assumes "nested_below n h a"
    and "lookup_in h (Ref a) (p @ [k]) = Some (Arr xs)"
    and "\<forall>k' \<in> set (p @ [k]).
           k' \<notin> {''password'', ''token'', ''secret'', ''authorization'', ''creditCard'', ''cvv''}"
  shows "\<exists>r. sanitizeBody n h a = Some r \<and> lookup_out r (p @ [k]) = Some (Keep (Arr xs))"
proof -
  from sanitizeBody_total [OF assms(1)] obtain r where r: "sanitizeBody n h a = Some r" by auto
  from assms(2) obtain y where y: "lookup_in h (Ref a) p = Some y"
    and v: "lookup_in h y [k] = Some (Arr xs)"
    by (auto simp: lookup_in_append split: option.splits)
  from lookup_in_single [OF v] obtain b where b: "y = Ref b" "map_of (h b) k = Some (Arr xs)"
    by auto
  from assms(3) have p: "\<forall>k' \<in> set p. k' \<notin> set sensitiveFields"
    and k: "k \<notin> set sensitiveFields"
    unfolding set_sensitiveFields by auto
  from sanitizeBody_path [OF r p y [unfolded b(1)]] obtain d' rb where
    rb: "sanitizeBody d' h b = Some rb" "lookup_out r p = Some rb" by auto
  from sanitizeBody_field [OF rb(1) b(2)] k have "lookup_out rb [k] = Some (Keep (Arr xs))"
    by auto
  then have "lookup_out r (p @ [k]) = Some (Keep (Arr xs))"
    using rb(2) by (simp add: lookup_out_append)
  with r show ?thesis by auto
qed

theorem arrays_pass_through_witness:
  "\<exists>r. sanitizeBody (Suc 0)
          ((\<lambda>_. [])(0 := [(''name'', Str ''test''), (''users'', Arr [Ref 1, Ref 2])],
                     1 := [(''name'', Str ''User1''), (''password'', Str ''pass1'')],
                     2 := [(''name'', Str ''User2''), (''password'', Str ''pass2'')])) 0 = Some r
       \<and> lookup_out r [''users''] = Some (Keep (Arr [Ref 1, Ref 2]))"
  using arrays_pass_through [where n = "Suc 0" and a = 0 and p = "[]"
      and k = "''users''" and xs = "[Ref 1, Ref 2]"
      and h = "(\<lambda>_. [])(0 := [(''name'', Str ''test''), (''users'', Arr [Ref 1, Ref 2])],
                     1 := [(''name'', Str ''User1''), (''password'', Str ''pass1'')],
                     2 := [(''name'', Str ''User2''), (''password'', Str ''pass2'')])"]
  by simp

text \<open>
  C9 as stated fails for an array under one of the six names: the array is replaced by
  \<^verbatim>\<open>'[REDACTED]'\<close>.
\<close>

theorem sensitive_array_field_counterexample:
  "sanitizeBody (Suc 0)
     ((\<lambda>_. [])(0 := [(''name'', Str ''test''), (''token'', Arr [Str ''a'', Str ''b''])])) 0
   = Some (Fresh [(''name'', Keep (Str ''test'')), (''token'', Keep (Str ''[REDACTED]''))])"
  by (simp add: sensitiveFields_def redact_def)

text \<open>
  C2 fails on the code, which calls \<^verbatim>\<open>JSON.stringify\<close> outside any \<^verbatim>\<open>try\<close>. For a non-empty
  body, whatever \<^verbatim>\<open>JSON.stringify\<close> throws on the sanitized body is thrown by \<^verbatim>\<open>use\<close>, after
  the record of the incoming request and with no record of the body; and when
  \<^verbatim>\<open>sanitizeBody\<close> does not return, \<^verbatim>\<open>use\<close> throws the \<^verbatim>\<open>RangeError\<close> of the runtime.
\<close>

theorem body_logging_failure_propagates:
  assumes "body req = Some b" and "h b \<noteq> []"
  shows "(sanitizeBody depth h b = Some sb \<and> stringify h sb = Inl e \<longrightarrow>
            LoggerMiddleware_use stringify depth h req = ([incoming req], Threw e))
       \<and> (sanitizeBody depth h b = None \<longrightarrow>
            LoggerMiddleware_use stringify depth h req =
              ([incoming req],
               Threw (ErrorObject \<lparr>error_cls = RangeError,
                        error_message = ''Maximum call stack size exceeded''\<rparr>)))"
  using assms by (simp add: LoggerMiddleware_use_def)

theorem body_logging_failure_propagates_witness:
  "LoggerMiddleware_use
     (\<lambda>h sv. Inl (ErrorObject \<lparr>error_cls = TypeError,
                     error_message = ''Do not know how to serialize a BigInt''\<rparr>))
     (Suc 0)
     ((\<lambda>_. [])(0 := [(''name'', Str ''test''), (''bigNumber'', BigInt 9007199254740991)]))
     \<lparr>requestId = Some ''test-request-id'', user = None, tenantContext = None,
      x_tenant_id = Absent, hostname = ''localhost'', originalUrl = ''/api/bigint'',
      http_method = ''POST'', user_agent = None, body = Some 0\<rparr>
   = ([(LOG, ''[test-request-id] Incoming: POST /api/bigint - UserAgent: unknown'')],
      Threw (ErrorObject \<lparr>error_cls = TypeError,
               error_message = ''Do not know how to serialize a BigInt''\<rparr>))
   \<and> (\<forall>stringify depth.
        LoggerMiddleware_use stringify depth
          ((\<lambda>_. [])(0 := [(''name'', Str ''test''), (''self'', Ref 0)]))
          \<lparr>requestId = None, user = None, tenantContext = None,
           x_tenant_id = Absent, hostname = ''localhost'', originalUrl = ''/api/circular'',
           http_method = ''POST'', user_agent = Some ''jest'', body = Some 0\<rparr>
        = ([(LOG, ''[no-request-id] Incoming: POST /api/circular - UserAgent: jest'')],
           Threw (ErrorObject \<lparr>error_cls = RangeError,
                    error_message = ''Maximum call stack size exceeded''\<rparr>)))"
proof (intro conjI allI)
  show "LoggerMiddleware_use
     (\<lambda>h sv. Inl (ErrorObject \<lparr>error_cls = TypeError,
                     error_message = ''Do not know how to serialize a BigInt''\<rparr>))
     (Suc 0)
     ((\<lambda>_. [])(0 := [(''name'', Str ''test''), (''bigNumber'', BigInt 9007199254740991)]))
     \<lparr>requestId = Some ''test-request-id'', user = None, tenantContext = None,
      x_tenant_id = Absent, hostname = ''localhost'', originalUrl = ''/api/bigint'',
      http_method = ''POST'', user_agent = None, body = Some 0\<rparr>
   = ([(LOG, ''[test-request-id] Incoming: POST /api/bigint - UserAgent: unknown'')],
      Threw (ErrorObject \<lparr>error_cls = TypeError,
               error_message = ''Do not know how to serialize a BigInt''\<rparr>))"
    using body_logging_failure_propagates [where b = 0 and depth = "Suc 0"
      and stringify = "\<lambda>h sv. Inl (ErrorObject \<lparr>error_cls = TypeError,
                     error_message = ''Do not know how to serialize a BigInt''\<rparr>)"
      and e = "ErrorObject \<lparr>error_cls = TypeError,
                     error_message = ''Do not know how to serialize a BigInt''\<rparr>"
      and sb = "Fresh [(''name'', Keep (Str ''test'')),
                       (''bigNumber'', Keep (BigInt 9007199254740991))]"
      and h = "(\<lambda>_. [])(0 := [(''name'', Str ''test''),
                                  (''bigNumber'', BigInt 9007199254740991)])"
      and req = "\<lparr>requestId = Some ''test-request-id'', user = None, tenantContext = None,
      x_tenant_id = Absent, hostname = ''localhost'', originalUrl = ''/api/bigint'',
      http_method = ''POST'', user_agent = None, body = Some 0\<rparr>"]
    by (simp add: sensitiveFields_def redact_def incoming_def requestId_or_default_def)
next
  fix stringify :: "heap \<Rightarrow> sval \<Rightarrow> thrown + string" and depth
  have "sanitizeBody depth ((\<lambda>_. [])(0 := [(''name'', Str ''test''), (''self'', Ref 0)])) 0 = None"
    by (rule sanitizeBody_cycle [where p = "[''self'']"]) (simp_all add: sensitiveFields_def)
  then show "LoggerMiddleware_use stringify depth
          ((\<lambda>_. [])(0 := [(''name'', Str ''test''), (''self'', Ref 0)]))
          \<lparr>requestId = None, user = None, tenantContext = None,
           x_tenant_id = Absent, hostname = ''localhost'', originalUrl = ''/api/circular'',
           http_method = ''POST'', user_agent = Some ''jest'', body = Some 0\<rparr>
        = ([(LOG, ''[no-request-id] Incoming: POST /api/circular - UserAgent: jest'')],
           Threw (ErrorObject \<lparr>error_cls = RangeError,
                    error_message = ''Maximum call stack size exceeded''\<rparr>))"
    using body_logging_failure_propagates [where b = 0 and depth = depth
      and stringify = stringify
      and h = "(\<lambda>_. [])(0 := [(''name'', Str ''test''), (''self'', Ref 0)])"
      and req = "\<lparr>requestId = None, user = None, tenantContext = None,
           x_tenant_id = Absent, hostname = ''localhost'', originalUrl = ''/api/circular'',
           http_method = ''POST'', user_agent = Some ''jest'', body = Some 0\<rparr>"]
    by (simp add: incoming_def requestId_or_default_def)
qed

end
